theory Spec2Isabelle
  imports Main
begin

section \<open>The preprocessor view of contracts.h\<close>

text \<open>
  contracts.h is a header of macros. What a use of \<open>requires\<close>, \<open>ensures\<close>, \<open>validate\<close>,
  \<open>if_else_debug\<close>, \<open>if_debug\<close>, \<open>if_not_debug\<close> or \<open>assert_exception\<close> does is decided in
  two steps: the directives of the header fill the macro table of the translation unit, and
  a later use is replaced by the replacement list the table holds for it at that point.
  Both steps are modelled: the header as a list of directives run over a translation unit,
  the macros as functions that look their own name and the names they invoke up in the
  macro table.
\<close>

subsection \<open>Replacement lists\<close>

text \<open>
  One constructor for each replacement list that occurs in the header, and for the two
  that assert.h gives \<open>assert\<close> (ISO C 7.2: \<open>((void)0)\<close> under NDEBUG, the checking
  macro otherwise).
\<close>

datatype replacement =
    Empty_list                \<comment> \<open>\<open>#define H_CONTRACTS\<close>; also NDEBUG, EXDEBUG, __cplusplus\<close>
  | If_debug_list             \<comment> \<open>line 68: \<open>if_else_debug(code, (void) 0)\<close>\<close>
  | If_not_debug_list         \<comment> \<open>line 74: \<open>if_else_debug((void) 0, code)\<close>\<close>
  | Requires_list             \<comment> \<open>line 83: \<open>(CONTRACTS_ASSERT(exp))\<close>\<close>
  | Ensures_list              \<comment> \<open>line 92: \<open>(CONTRACTS_ASSERT(exp))\<close>\<close>
  | Validate_list             \<comment> \<open>line 127: \<open>(CONTRACTS_ASSERT((object).isValid()))\<close>\<close>
  | Assert_exception_list     \<comment> \<open>lines 140-156\<close>
  | Code_else_list            \<comment> \<open>line 187: \<open>code_else\<close>\<close>
  | Code_if_list              \<comment> \<open>line 191: \<open>code_if\<close>\<close>
  | Void0_list                \<comment> \<open>line 189: \<open>(void) 0\<close>\<close>
  | Throw_list                \<comment> \<open>line 193: \<open>((expr) ? (void) 0 : throw ContractViolated(#expr))\<close>\<close>
  | Assert_list               \<comment> \<open>line 195: \<open>assert(expr)\<close>\<close>
  | Std_assert_off            \<comment> \<open>assert.h with NDEBUG: \<open>((void)0)\<close>\<close>
  | Std_assert_on             \<comment> \<open>assert.h without NDEBUG\<close>

subsection \<open>Translation units and directives\<close>

record tunit =
  macros :: "string \<rightharpoonup> replacement"
  declared :: "string list"     \<comment> \<open>classes and functions defined so far\<close>

datatype pcond =
    Defined string
  | Not_c pcond
  | And_c pcond pcond

datatype directive =
    Define string replacement
  | Undef string
  | Declare string
  | If_else pcond "directive list" "directive list"

fun holds :: "pcond \<Rightarrow> tunit \<Rightarrow> bool" where
  "holds (Defined n) t = (macros t n \<noteq> None)"
| "holds (Not_c c) t = (\<not> holds c t)"
| "holds (And_c c d) t = (holds c t \<and> holds d t)"

text \<open>
  \<open>#define\<close> of a name that is defined with another replacement list, and a second
  definition of a class or function, make the unit ill-formed: \<open>None\<close>.
\<close>

fun define_macro :: "string \<Rightarrow> replacement \<Rightarrow> tunit \<Rightarrow> tunit option" where
  "define_macro n r t =
     (case macros t n of
        None \<Rightarrow> Some (t\<lparr>macros := (macros t)(n \<mapsto> r)\<rparr>)
      | Some r' \<Rightarrow> if r' = r then Some t else None)"

fun undef_macro :: "string \<Rightarrow> tunit \<Rightarrow> tunit option" where
  "undef_macro n t = Some (t\<lparr>macros := (macros t)(n := None)\<rparr>)"

fun declare_name :: "string \<Rightarrow> tunit \<Rightarrow> tunit option" where
  "declare_name n t =
     (if n \<in> set (declared t) then None else Some (t\<lparr>declared := declared t @ [n]\<rparr>))"

fun run :: "directive \<Rightarrow> tunit \<Rightarrow> tunit option"
  and runs :: "directive list \<Rightarrow> tunit \<Rightarrow> tunit option" where
  "run (Define n r) t = define_macro n r t"
| "run (Undef n) t = undef_macro n t"
| "run (Declare n) t = declare_name n t"
| "run (If_else c ds es) t = (if holds c t then runs ds t else runs es t)"
| "runs [] t = Some t"
| "runs (d # ds) t = (case run d t of None \<Rightarrow> None | Some t' \<Rightarrow> runs ds t')"

subsection \<open>The header\<close>

text \<open>
  Lines 41-53 include assert.h (cassert in C++), outside the include guard, so at every
  inclusion. assert.h removes \<open>assert\<close> and defines it again from NDEBUG.
\<close>

definition assert_h :: "directive list" where
  "assert_h =
     [Undef ''assert'',
      If_else (Defined ''NDEBUG'')
        [Define ''assert'' Std_assert_off]
        [Define ''assert'' Std_assert_on]]"

definition contracts_h :: "directive list" where
  "contracts_h =
     assert_h @
     [If_else (Not_c (Defined ''H_CONTRACTS''))
        [Define ''H_CONTRACTS'' Empty_list,
         Define ''if_debug'' If_debug_list,
         Define ''if_not_debug'' If_not_debug_list,
         Define ''requires'' Requires_list,
         Define ''ensures'' Ensures_list,
         If_else (Defined ''__cplusplus'')
           [Declare ''ContractViolated'',
            Define ''validate'' Validate_list,
            Define ''assert_exception'' Assert_exception_list]
           [],
         Declare ''__contracts_assert_failed'']
        [],
      If_else (Defined ''if_else_debug'')
        [Undef ''if_else_debug'',
         Undef ''CONTRACTS_ASSERT'']
        [],
      If_else (Defined ''NDEBUG'')
        [Define ''if_else_debug'' Code_else_list,
         Define ''CONTRACTS_ASSERT'' Void0_list]
        [Define ''if_else_debug'' Code_if_list,
         If_else (And_c (Defined ''EXDEBUG'') (Defined ''__cplusplus''))
           [Define ''CONTRACTS_ASSERT'' Throw_list]
           [Define ''CONTRACTS_ASSERT'' Assert_list]]]"

subsection \<open>Units that include the header\<close>

text \<open>
  The language is fixed for a unit; NDEBUG and EXDEBUG are set or cleared by the including
  file before each inclusion. A unit is described by its language and the flags
  \<open>(NDEBUG, EXDEBUG)\<close> at each of its inclusions of contracts.h, in order.
\<close>

datatype language = C | Cplusplus

definition start_unit :: "language \<Rightarrow> tunit" where
  "start_unit l =
     \<lparr>macros = (case l of C \<Rightarrow> Map.empty | Cplusplus \<Rightarrow> [''__cplusplus'' \<mapsto> Empty_list]),
      declared = []\<rparr>"

definition set_flag :: "string \<Rightarrow> bool \<Rightarrow> directive" where
  "set_flag n b = (if b then Define n Empty_list else Undef n)"

definition include_contracts :: "bool \<times> bool \<Rightarrow> tunit \<Rightarrow> tunit option" where
  "include_contracts f t =
     runs ([set_flag ''NDEBUG'' (fst f), set_flag ''EXDEBUG'' (snd f)] @ contracts_h) t"

fun inclusions :: "(bool \<times> bool) list \<Rightarrow> tunit \<Rightarrow> tunit option" where
  "inclusions [] t = Some t"
| "inclusions (f # fs) t =
     (case include_contracts f t of None \<Rightarrow> None | Some t' \<Rightarrow> inclusions fs t')"

definition unit_after :: "language \<Rightarrow> (bool \<times> bool) list \<Rightarrow> tunit option" where
  "unit_after l fs = inclusions fs (start_unit l)"

text \<open>
  The macro table and the definitions a unit holds after its inclusions, written out: the
  flags of the last inclusion, the macros of the guarded part, and the three the header
  defines again at every inclusion.
\<close>

definition table :: "language \<Rightarrow> bool \<times> bool \<Rightarrow> (string \<times> replacement) list" where
  "table l f =
     (if fst f then [(''NDEBUG'', Empty_list)] else []) @
     (if snd f then [(''EXDEBUG'', Empty_list)] else []) @
     (if l = Cplusplus
      then [(''__cplusplus'', Empty_list),
            (''validate'', Validate_list),
            (''assert_exception'', Assert_exception_list)]
      else []) @
     [(''H_CONTRACTS'', Empty_list),
      (''if_debug'', If_debug_list),
      (''if_not_debug'', If_not_debug_list),
      (''requires'', Requires_list),
      (''ensures'', Ensures_list),
      (''assert'', if fst f then Std_assert_off else Std_assert_on),
      (''if_else_debug'', if fst f then Code_else_list else Code_if_list),
      (''CONTRACTS_ASSERT'',
         if fst f then Void0_list
         else if snd f \<and> l = Cplusplus then Throw_list else Assert_list)]"

definition configured :: "language \<Rightarrow> bool \<times> bool \<Rightarrow> tunit" where
  "configured l f =
     \<lparr>macros = map_of (table l f),
      declared = (if l = Cplusplus then [''ContractViolated''] else []) @
                 [''__contracts_assert_failed'']\<rparr>"

section \<open>The code a macro use stands for\<close>

subsection \<open>Exceptions, outcomes, the process\<close>

text \<open>
  The types a handler can name, each with the chain of its public base classes: a type
  without a base, or a class derived from another. \<open>ContractViolated\<close> is derived from
  \<open>std::logic_error\<close> (line 102), which the standard library derives from
  \<open>std::exception\<close>.
\<close>

datatype class_type =
    Type string
  | Derived string class_type

definition std_exception :: class_type where
  "std_exception = Type ''std::exception''"

definition std_logic_error :: class_type where
  "std_logic_error = Derived ''std::logic_error'' std_exception"

definition ContractViolated :: class_type where
  "ContractViolated = Derived ''ContractViolated'' std_logic_error"

text \<open>A handler for \<open>h\<close> catches a thrown \<open>t\<close> when \<open>t\<close> is \<open>h\<close> or derived from it.\<close>

primrec catches :: "class_type \<Rightarrow> class_type \<Rightarrow> bool" where
  "catches h (Type n) = (h = Type n)"
| "catches h (Derived n b) = (h = Derived n b \<or> catches h b)"

text \<open>A thrown object: its type and, as \<open>what()\<close> returns it, its message.\<close>

datatype exn = Exn (thrown_type: class_type) (what: string)

text \<open>
  The process as far as the header touches it: what has been written to the standard error
  stream, and the state of the program, of which the header knows nothing.
\<close>

record 's world =
  stderr :: string
  state :: 's

datatype ('a, 'w) outcome =
    Value 'a 'w           \<comment> \<open>evaluation completed\<close>
  | Thrown exn 'w         \<comment> \<open>an exception is propagating\<close>
  | Aborted 'w            \<comment> \<open>\<open>abort()\<close>: the process has terminated abnormally\<close>

text \<open>Where a macro is used: \<open>__FILE__\<close>, \<open>__LINE__\<close> and \<open>__func__\<close> there.\<close>

record site =
  file_name :: string
  line_number :: nat
  function_name :: string

subsection \<open>Macro arguments\<close>

text \<open>
  An argument of a macro is a run of tokens. Three things about it matter: how it is spelled
  at the use, what it is spelled after the macros named in it have been replaced, and what
  the replaced tokens mean. The operator \<open>#\<close> yields the spelling of the argument it is
  applied to; a parameter that is not an operand of \<open>#\<close> is substituted by the replaced
  tokens (ISO C 6.10.3.1), so a macro that hands its argument on to another macro hands on
  the replaced tokens.
\<close>

datatype 'a arg = Arg (spelling: string) (replaced: string) (meaning: 'a)

definition handed_on :: "'a arg \<Rightarrow> 'a arg" where
  "handed_on a = Arg (replaced a) (replaced a) (meaning a)"

type_synonym 's condition = "('s world \<Rightarrow> (bool, 's world) outcome) arg"
type_synonym 's statement = "'s world \<Rightarrow> (unit, 's world) outcome"

subsection \<open>Expanded code and its execution\<close>

datatype 's code =
    Void0                                       \<comment> \<open>\<open>(void) 0\<close>\<close>
  | Empty_block                                 \<comment> \<open>\<open>{}\<close>\<close>
  | Caller "'s statement"                       \<comment> \<open>code of the caller, \<open>code;\<close>\<close>
  | Paren "'s code"                             \<comment> \<open>\<open>( ... )\<close>\<close>
  | Conditional "'s world \<Rightarrow> (bool, 's world) outcome" "'s code" "'s code"
                                                \<comment> \<open>\<open>(expr) ? a : b\<close>\<close>
  | Throw_ContractViolated string               \<comment> \<open>\<open>throw ContractViolated(msg)\<close>\<close>
  | Std_assert site string "'s world \<Rightarrow> (bool, 's world) outcome"
                                                \<comment> \<open>the checking \<open>assert\<close> of assert.h\<close>
  | Contracts_assert_failed site string         \<comment> \<open>\<open>__contracts_assert_failed(__FILE__, __LINE__, msg)\<close>\<close>
  | Sequence "'s code" "'s code"                \<comment> \<open>\<open>a; b;\<close>\<close>
  | If_true "'s code" "'s code"                 \<comment> \<open>\<open>if (true) a else b\<close>\<close>
  | Try_catch "'s code" class_type "'s code" "'s code"
                                                \<comment> \<open>\<open>try { a } catch (ex) { b } catch (...) { c }\<close>\<close>

text \<open>\<open>%lu\<close> of a line number: \<open>__LINE__\<close> is below \<open>2^31\<close>, so the conversions to
  \<open>size_t\<close> and \<open>unsigned long\<close> keep its value.\<close>

fun decimal :: "nat \<Rightarrow> string" where
  "decimal n =
     (if n < 10 then [''0123456789'' ! n]
      else decimal (n div 10) @ [''0123456789'' ! (n mod 10)])"

declare decimal.simps [simp del]

definition newline :: char where
  "newline = CHR 0x0A"

text \<open>Lines 165-166: \<open>fprintf(stderr, "*** assertion failed at %s:%lu\n%s\n", file, line, msg)\<close>.\<close>

definition failure_report :: "site \<Rightarrow> string \<Rightarrow> string" where
  "failure_report s msg =
     ''*** assertion failed at '' @ file_name s @ '':'' @ decimal (line_number s) @ [newline] @
     msg @ [newline]"

text \<open>
  What the checking \<open>assert\<close> writes is implementation-defined (ISO C 7.2.1.1): a text made
  from the use site and the spelling of the argument. It is a parameter of the execution.
\<close>

type_synonym assert_format = "site \<Rightarrow> string \<Rightarrow> string"

text \<open>One such format, that of musl libc:
  \<open>fprintf(stderr, "Assertion failed: %s (%s: %s: %d)\n", expr, file, func, line)\<close>.\<close>

definition musl_format :: assert_format where
  "musl_format s text =
     ''Assertion failed: '' @ text @ '' ('' @ file_name s @ '': '' @ function_name s @
     '': '' @ decimal (line_number s) @ '')'' @ [newline]"

definition write_stderr :: "string \<Rightarrow> 's world \<Rightarrow> 's world" where
  "write_stderr text w = w\<lparr>stderr := stderr w @ text\<rparr>"

fun exec :: "assert_format \<Rightarrow> 's code \<Rightarrow> 's world \<Rightarrow> (unit, 's world) outcome" where
  "exec fmt Void0 w = Value () w"
| "exec fmt Empty_block w = Value () w"
| "exec fmt (Caller c) w = c w"
| "exec fmt (Paren a) w = exec fmt a w"
| "exec fmt (Conditional e a b) w =
     (case e w of
        Value v w' \<Rightarrow> if v then exec fmt a w' else exec fmt b w'
      | Thrown x w' \<Rightarrow> Thrown x w'
      | Aborted w' \<Rightarrow> Aborted w')"
| "exec fmt (Throw_ContractViolated msg) w = Thrown (Exn ContractViolated msg) w"
| "exec fmt (Std_assert s text e) w =
     (case e w of
        Value v w' \<Rightarrow> if v then Value () w' else Aborted (write_stderr (fmt s text) w')
      | Thrown x w' \<Rightarrow> Thrown x w'
      | Aborted w' \<Rightarrow> Aborted w')"
| "exec fmt (Contracts_assert_failed s msg) w = Aborted (write_stderr (failure_report s msg) w)"
| "exec fmt (Sequence a b) w =
     (case exec fmt a w of
        Value u w' \<Rightarrow> exec fmt b w'
      | Thrown x w' \<Rightarrow> Thrown x w'
      | Aborted w' \<Rightarrow> Aborted w')"
| "exec fmt (If_true a b) w = exec fmt a w"
| "exec fmt (Try_catch a ex b c) w =
     (case exec fmt a w of
        Value u w' \<Rightarrow> Value u w'
      | Thrown x w' \<Rightarrow> if catches ex (thrown_type x) then exec fmt b w' else exec fmt c w'
      | Aborted w' \<Rightarrow> Aborted w')"

subsection \<open>The macros\<close>

text \<open>
  Each macro is a function of the macro table: a use is replaced only if the table holds
  the name, by the replacement list it holds, and the names invoked there are looked up in
  turn. \<open>None\<close>: the name is no macro at that point, and the use does not compile as one.
\<close>

type_synonym macro_table = "string \<rightharpoonup> replacement"

definition std_assert :: "site \<Rightarrow> 's condition \<Rightarrow> macro_table \<Rightarrow> 's code option" where
  "std_assert s expr m =
     (case m ''assert'' of
        Some Std_assert_off \<Rightarrow> Some (Paren Void0)
      | Some Std_assert_on \<Rightarrow> Some (Std_assert s (spelling expr) (meaning expr))
      | _ \<Rightarrow> None)"

definition CONTRACTS_ASSERT :: "site \<Rightarrow> 's condition \<Rightarrow> macro_table \<Rightarrow> 's code option" where
  "CONTRACTS_ASSERT s expr m =
     (case m ''CONTRACTS_ASSERT'' of
        Some Void0_list \<Rightarrow> Some Void0
      | Some Throw_list \<Rightarrow>
          Some (Paren (Conditional (meaning expr) Void0
                         (Throw_ContractViolated (spelling expr))))
      | Some Assert_list \<Rightarrow> std_assert s (handed_on expr) m
      | _ \<Rightarrow> None)"

definition if_else_debug :: "'a \<Rightarrow> 'a \<Rightarrow> macro_table \<Rightarrow> 'a option" where
  "if_else_debug code_if code_else m =
     (case m ''if_else_debug'' of
        Some Code_else_list \<Rightarrow> Some code_else
      | Some Code_if_list \<Rightarrow> Some code_if
      | _ \<Rightarrow> None)"

definition if_debug :: "'s code \<Rightarrow> macro_table \<Rightarrow> 's code option" where
  "if_debug code m =
     (case m ''if_debug'' of
        Some If_debug_list \<Rightarrow> if_else_debug code Void0 m
      | _ \<Rightarrow> None)"

definition if_not_debug :: "'s code \<Rightarrow> macro_table \<Rightarrow> 's code option" where
  "if_not_debug code m =
     (case m ''if_not_debug'' of
        Some If_not_debug_list \<Rightarrow> if_else_debug Void0 code m
      | _ \<Rightarrow> None)"

definition requires :: "site \<Rightarrow> 's condition \<Rightarrow> macro_table \<Rightarrow> 's code option" where
  "requires s exp m =
     (case m ''requires'' of
        Some Requires_list \<Rightarrow> map_option Paren (CONTRACTS_ASSERT s (handed_on exp) m)
      | _ \<Rightarrow> None)"

definition ensures :: "site \<Rightarrow> 's condition \<Rightarrow> macro_table \<Rightarrow> 's code option" where
  "ensures s exp m =
     (case m ''ensures'' of
        Some Ensures_list \<Rightarrow> map_option Paren (CONTRACTS_ASSERT s (handed_on exp) m)
      | _ \<Rightarrow> None)"

text \<open>
  \<open>validate(object)\<close> hands on \<open>(object).isValid()\<close>; the meaning of the argument
  \<open>object\<close> is the \<open>isValid\<close> method of the object it denotes.
\<close>

definition isValid_call :: "'a arg \<Rightarrow> 'a arg" where
  "isValid_call object =
     Arg (''('' @ replaced object @ '').isValid()'')
         (''('' @ replaced object @ '').isValid()'')
         (meaning object)"

definition validate :: "site \<Rightarrow> 's condition \<Rightarrow> macro_table \<Rightarrow> 's code option" where
  "validate s object m =
     (case m ''validate'' of
        Some Validate_list \<Rightarrow> map_option Paren (CONTRACTS_ASSERT s (isValid_call object) m)
      | _ \<Rightarrow> None)"

text \<open>The two string literals of lines 146-147 and 152-153, with \<open>#ex\<close> between the
  quotation marks U+201C and U+201D as the file has them, in UTF-8.\<close>

definition left_quote :: string where
  "left_quote = [CHR 0xE2, CHR 0x80, CHR 0x9C]"

definition right_quote :: string where
  "right_quote = [CHR 0xE2, CHR 0x80, CHR 0x9D]"

definition no_exception_message :: "'a arg \<Rightarrow> string" where
  "no_exception_message ex =
     ''No exceptions has been thrown '' @
     ''(expected: '' @ left_quote @ spelling ex @ right_quote @ '').''"

definition unexpected_exception_message :: "'a arg \<Rightarrow> string" where
  "unexpected_exception_message ex =
     ''An unexpected exception has been '' @
     ''thrown (expected: '' @ left_quote @ spelling ex @ right_quote @ '').''"

definition assert_exception ::
    "site \<Rightarrow> 's statement \<Rightarrow> class_type arg \<Rightarrow> macro_table \<Rightarrow> 's code option" where
  "assert_exception s code ex m =
     (case m ''assert_exception'' of
        Some Assert_exception_list \<Rightarrow>
          if_debug
            (If_true
               (Try_catch
                  (Sequence (Caller code)
                     (Contracts_assert_failed s (no_exception_message ex)))
                  (meaning ex)
                  Empty_block
                  (Contracts_assert_failed s (unexpected_exception_message ex)))
               (Paren Void0))
            m
      | _ \<Rightarrow> None)"

subsection \<open>A use in a unit\<close>

text \<open>
  A macro used after the inclusions \<open>fs\<close> of a unit in language \<open>l\<close> is replaced under
  the macro table the unit has then; \<open>run_use\<close> executes the code it stands for.
\<close>

definition use :: "language \<Rightarrow> (bool \<times> bool) list \<Rightarrow> (macro_table \<Rightarrow> 'a option) \<Rightarrow> 'a option" where
  "use l fs macro =
     (case unit_after l fs of None \<Rightarrow> None | Some t \<Rightarrow> macro (macros t))"

definition run_use ::
    "assert_format \<Rightarrow> language \<Rightarrow> (bool \<times> bool) list \<Rightarrow> (macro_table \<Rightarrow> 's code option) \<Rightarrow>
     's world \<Rightarrow> (unit, 's world) outcome option" where
  "run_use fmt l fs macro w =
     (case use l fs macro of None \<Rightarrow> None | Some c \<Rightarrow> Some (exec fmt c w))"

text \<open>The replacement list a name has at a use, if it is a macro there.\<close>

definition defined_as :: "string \<Rightarrow> macro_table \<Rightarrow> replacement option" where
  "defined_as n m = m n"

text \<open>
  A macro use that the caller has put into a try block of their own:
  \<open>try { use; } catch (ex) { handler } catch (...) { other }\<close>.
\<close>

definition enclosed ::
    "(macro_table \<Rightarrow> 's code option) \<Rightarrow> class_type \<Rightarrow> 's code \<Rightarrow> 's code \<Rightarrow>
     macro_table \<Rightarrow> 's code option" where
  "enclosed macro ex handler other m =
     (case macro m of None \<Rightarrow> None | Some a \<Rightarrow> Some (Try_catch a ex handler other))"

section \<open>What the inclusions leave behind\<close>

text \<open>
  Run on a fresh unit, and run again on a unit that has included the header under any
  flags, the header succeeds and leaves exactly the table \<open>configured\<close> writes out for
  the flags of this inclusion.
\<close>

lemma include_first: "include_contracts f (start_unit l) = Some (configured l f)"
  apply (cases f; cases l)
  subgoal for a b
    by (cases a; cases b)
       (simp_all add: include_contracts_def start_unit_def configured_def table_def
          set_flag_def contracts_h_def assert_h_def fun_eq_iff)
  subgoal for a b
    by (cases a; cases b)
       (simp_all add: include_contracts_def start_unit_def configured_def table_def
          set_flag_def contracts_h_def assert_h_def fun_eq_iff)
  done

lemma include_again: "include_contracts f (configured l g) = Some (configured l f)"
  apply (cases f; cases g; cases l)
  subgoal for a b c d
    by (cases a; cases b; cases c; cases d)
       (simp_all add: include_contracts_def configured_def table_def
          set_flag_def contracts_h_def assert_h_def fun_eq_iff)
  subgoal for a b c d
    by (cases a; cases b; cases c; cases d)
       (simp_all add: include_contracts_def configured_def table_def
          set_flag_def contracts_h_def assert_h_def fun_eq_iff)
  done

lemma inclusions_configured: "inclusions (fs @ [f]) (configured l g) = Some (configured l f)"
  by (induction fs arbitrary: g) (simp_all add: include_again)

lemma unit_after_last: "unit_after l (prior @ [f]) = Some (configured l f)"
  by (cases prior) (simp_all add: unit_after_def include_first inclusions_configured)

lemma use_last: "use l (prior @ [f]) macro = macro (macros (configured l f))"
  by (simp add: use_def unit_after_last)

lemma run_use_last:
  "run_use fmt l (prior @ [f]) macro w =
     map_option (\<lambda>c. exec fmt c w) (macro (macros (configured l f)))"
  by (simp add: run_use_def use_last split: option.split)

lemma configured_fixed:
  "macros (configured l f) ''if_debug'' = Some If_debug_list"
  "macros (configured l f) ''if_not_debug'' = Some If_not_debug_list"
  "macros (configured l f) ''requires'' = Some Requires_list"
  "macros (configured l f) ''ensures'' = Some Ensures_list"
  "macros (configured Cplusplus f) ''validate'' = Some Validate_list"
  "macros (configured Cplusplus f) ''assert_exception'' = Some Assert_exception_list"
  by (simp_all add: configured_def table_def)

lemma configured_switched:
  "macros (configured l f) ''assert'' = Some (if fst f then Std_assert_off else Std_assert_on)"
  "macros (configured l f) ''if_else_debug'' =
     Some (if fst f then Code_else_list else Code_if_list)"
  "macros (configured l f) ''CONTRACTS_ASSERT'' =
     Some (if fst f then Void0_list
           else if snd f \<and> l = Cplusplus then Throw_list else Assert_list)"
  by (simp_all add: configured_def table_def)

lemma CONTRACTS_ASSERT_configured:
  "CONTRACTS_ASSERT s e (macros (configured l (nd, exd))) =
     Some (if nd then Void0
           else if exd \<and> l = Cplusplus
             then Paren (Conditional (meaning e) Void0 (Throw_ContractViolated (spelling e)))
             else Std_assert s (replaced e) (meaning e))"
  by (simp add: CONTRACTS_ASSERT_def std_assert_def handed_on_def configured_switched)

lemma requires_configured:
  "requires s e (macros (configured l (nd, exd))) =
     Some (Paren (if nd then Void0
           else if exd \<and> l = Cplusplus
             then Paren (Conditional (meaning e) Void0 (Throw_ContractViolated (replaced e)))
             else Std_assert s (replaced e) (meaning e)))"
  by (simp add: requires_def CONTRACTS_ASSERT_configured configured_fixed handed_on_def)

lemma ensures_configured:
  "ensures s e (macros (configured l (nd, exd))) =
     Some (Paren (if nd then Void0
           else if exd \<and> l = Cplusplus
             then Paren (Conditional (meaning e) Void0 (Throw_ContractViolated (replaced e)))
             else Std_assert s (replaced e) (meaning e)))"
  by (simp add: ensures_def CONTRACTS_ASSERT_configured configured_fixed handed_on_def)

lemma validate_configured:
  "validate s ob (macros (configured Cplusplus (nd, exd))) =
     Some (Paren (if nd then Void0
           else if exd
             then Paren (Conditional (meaning ob) Void0
                    (Throw_ContractViolated (''('' @ replaced ob @ '').isValid()'')))
             else Std_assert s (''('' @ replaced ob @ '').isValid()'') (meaning ob)))"
  by (simp add: validate_def CONTRACTS_ASSERT_configured configured_fixed isValid_call_def)

lemma if_else_debug_configured:
  "if_else_debug a b (macros (configured l (nd, exd))) = Some (if nd then b else a)"
  by (simp add: if_else_debug_def configured_switched)

lemma assert_exception_configured:
  "assert_exception s code ex (macros (configured Cplusplus (nd, exd))) =
     Some (if nd then Void0
           else If_true
               (Try_catch
                  (Sequence (Caller code)
                     (Contracts_assert_failed s (no_exception_message ex)))
                  (meaning ex)
                  Empty_block
                  (Contracts_assert_failed s (unexpected_exception_message ex)))
               (Paren Void0))"
  by (simp add: assert_exception_def if_debug_def if_else_debug_configured configured_fixed)

section \<open>The contracts of the header\<close>

text \<open>
  In every statement below the unit may have included the header any number of times
  before (\<open>prior\<close>, under any flags); the flags named are those of its last inclusion
  before the use, written \<open>(NDEBUG, EXDEBUG)\<close>.
\<close>

subsection \<open>Checks under NDEBUG\<close>

text \<open>
  C1. When NDEBUG is defined, \<open>requires(C)\<close>, \<open>ensures(C)\<close> and (in C++)
  \<open>validate(obj)\<close> stand for \<open>((void) 0)\<close>: neither C nor \<open>obj.isValid()\<close> occurs in
  the code, and running it changes nothing, for every C and obj, whatever their evaluation
  would do.
\<close>

theorem ndebug_contracts_vanish:
  "use l (prior @ [(True, exd)]) (requires s c) = Some (Paren Void0) \<and>
   use l (prior @ [(True, exd)]) (ensures s c) = Some (Paren Void0) \<and>
   use Cplusplus (prior @ [(True, exd)]) (validate s ob) = Some (Paren Void0) \<and>
   run_use fmt l (prior @ [(True, exd)]) (requires s c) w = Some (Value () w) \<and>
   run_use fmt l (prior @ [(True, exd)]) (ensures s c) w = Some (Value () w) \<and>
   run_use fmt Cplusplus (prior @ [(True, exd)]) (validate s ob) w = Some (Value () w)"
  by (simp add: use_last run_use_last requires_configured ensures_configured
        validate_configured)

text \<open>An object whose \<open>isValid\<close> would abort the process, validated under NDEBUG.\<close>

theorem ndebug_contracts_vanish_witness:
  "run_use musl_format Cplusplus [(False, True), (True, True)]
     (validate \<lparr>file_name = ''bank.cpp'', line_number = 12, function_name = ''withdraw''\<rparr>
        (Arg ''*this'' ''*this'' Aborted))
     \<lparr>stderr = '''', state = ()\<rparr>
   = Some (Value () \<lparr>stderr = '''', state = ()\<rparr>)"
  using ndebug_contracts_vanish [where prior = "[(False, True)]" and exd = True
      and l = Cplusplus and fmt = musl_format
      and s = "\<lparr>file_name = ''bank.cpp'', line_number = 12, function_name = ''withdraw''\<rparr>"
      and c = "Arg ''*this'' ''*this'' Aborted" and ob = "Arg ''*this'' ''*this'' Aborted"
      and w = "\<lparr>stderr = '''', state = ()\<rparr>"]
  by simp

subsection \<open>A failed check in the default mode\<close>

text \<open>
  C2 as stated fails. Without NDEBUG and EXDEBUG a check is \<open>assert(expr)\<close> (line 195), so
  what reaches the standard error stream is the message of the platform's \<open>assert\<close>, not
  the line \<open>*** assertion failed at ...\<close> of \<open>__contracts_assert_failed\<close>. With the
  format of musl libc, \<open>requires(amount > 0)\<close> at bank.c:12 in \<open>withdraw\<close>:
\<close>

theorem default_mode_message_counterexample:
  "run_use musl_format C [(False, False)]
     (requires \<lparr>file_name = ''bank.c'', line_number = 12, function_name = ''withdraw''\<rparr>
        (Arg ''amount > 0'' ''amount > 0'' (Value False)))
     \<lparr>stderr = '''', state = ()\<rparr>
   = Some (Aborted
       \<lparr>stderr = ''Assertion failed: amount > 0 (bank.c: withdraw: 12)'' @ [newline],
        state = ()\<rparr>) \<and>
   run_use musl_format C [(False, False)]
     (requires \<lparr>file_name = ''bank.c'', line_number = 12, function_name = ''withdraw''\<rparr>
        (Arg ''amount > 0'' ''amount > 0'' (Value False)))
     \<lparr>stderr = '''', state = ()\<rparr>
   \<noteq> Some (Aborted
       \<lparr>stderr = ''*** assertion failed at bank.c:12'' @ [newline] @ ''amount > 0'' @ [newline],
        state = ()\<rparr>)"
  by (simp add: run_use_last [where prior = "[]", simplified] requires_configured
        musl_format_def write_stderr_def decimal.simps newline_def)

text \<open>
  C2, amended. For every condition C that evaluates to false, with NDEBUG and EXDEBUG both
  unset, \<open>requires(C)\<close> and \<open>ensures(C)\<close> (and \<open>validate\<close> in C++, on
  \<open>(obj).isValid()\<close>) terminate the process abnormally after the standard \<open>assert\<close>
  has written its message to the standard error stream: a text in the format of the
  implementation, made from the file name, the line number, the enclosing function and the
  text of C after macro replacement.
\<close>

theorem default_mode_failure:
  "meaning c w = Value False w' \<Longrightarrow>
   run_use fmt l (prior @ [(False, False)]) (requires s c) w
     = Some (Aborted (write_stderr (fmt s (replaced c)) w')) \<and>
   run_use fmt l (prior @ [(False, False)]) (ensures s c) w
     = Some (Aborted (write_stderr (fmt s (replaced c)) w')) \<and>
   run_use fmt Cplusplus (prior @ [(False, False)]) (validate s c) w
     = Some (Aborted (write_stderr (fmt s (''('' @ replaced c @ '').isValid()'')) w'))"
  by (simp add: run_use_last requires_configured ensures_configured validate_configured)

theorem default_mode_failure_witness:
  "meaning (Arg ''amount > LIMIT'' ''amount > 10'' (Value False)) \<lparr>stderr = '''', state = ()\<rparr>
     = Value False \<lparr>stderr = '''', state = ()\<rparr> \<and>
   run_use musl_format C [(False, False)]
     (requires \<lparr>file_name = ''bank.c'', line_number = 12, function_name = ''withdraw''\<rparr>
        (Arg ''amount > LIMIT'' ''amount > 10'' (Value False)))
     \<lparr>stderr = '''', state = ()\<rparr>
   = Some (Aborted
       \<lparr>stderr = ''Assertion failed: amount > 10 (bank.c: withdraw: 12)'' @ [newline],
        state = ()\<rparr>)"
  using default_mode_failure [where prior = "[]" and l = C and fmt = musl_format
      and c = "Arg ''amount > LIMIT'' ''amount > 10'' (Value False)"
      and w = "\<lparr>stderr = '''', state = ()\<rparr>" and w' = "\<lparr>stderr = '''', state = ()\<rparr>"
      and s = "\<lparr>file_name = ''bank.c'', line_number = 12, function_name = ''withdraw''\<rparr>"]
  by (simp add: musl_format_def write_stderr_def decimal.simps)

subsection \<open>A failed check in the exception mode\<close>

text \<open>
  C3 as stated fails in one point, the message. \<open>requires\<close> hands its argument on to
  \<open>CONTRACTS_ASSERT\<close>, and only there is it an operand of \<open>#\<close>; what is turned into
  the message is the argument after macro replacement. After \<open>#define LIMIT 10\<close>, the
  check \<open>requires(amount > LIMIT)\<close> throws with the message \<open>amount > 10\<close>:
\<close>

theorem exception_mode_message_counterexample:
  "run_use musl_format Cplusplus [(False, True)]
     (requires \<lparr>file_name = ''bank.cpp'', line_number = 12, function_name = ''withdraw''\<rparr>
        (Arg ''amount > LIMIT'' ''amount > 10'' (Value False)))
     \<lparr>stderr = '''', state = ()\<rparr>
   = Some (Thrown (Exn ContractViolated ''amount > 10'') \<lparr>stderr = '''', state = ()\<rparr>) \<and>
   what (Exn ContractViolated ''amount > 10'')
   \<noteq> spelling (Arg ''amount > LIMIT'' ''amount > 10'' (Value False))"
  by (simp add: run_use_last [where prior = "[]", simplified] requires_configured)

text \<open>
  C3, amended. For every condition C that evaluates to false, with NDEBUG unset and EXDEBUG
  set in C++, \<open>requires(C)\<close>, \<open>ensures(C)\<close> and \<open>validate\<close> throw a
  \<open>ContractViolated\<close> whose message is the text of C after macro replacement (for
  \<open>validate(obj)\<close>, of \<open>(obj).isValid()\<close>); the process is not terminated, and an
  enclosing handler for \<open>ContractViolated\<close> or for \<open>std::logic_error\<close> receives
  control.
\<close>

theorem exception_mode_failure:
  "meaning c w = Value False w' \<Longrightarrow>
   run_use fmt Cplusplus (prior @ [(False, True)]) (requires s c) w
     = Some (Thrown (Exn ContractViolated (replaced c)) w') \<and>
   run_use fmt Cplusplus (prior @ [(False, True)]) (ensures s c) w
     = Some (Thrown (Exn ContractViolated (replaced c)) w') \<and>
   run_use fmt Cplusplus (prior @ [(False, True)]) (validate s c) w
     = Some (Thrown (Exn ContractViolated (''('' @ replaced c @ '').isValid()'')) w') \<and>
   run_use fmt Cplusplus (prior @ [(False, True)])
     (enclosed (requires s c) ContractViolated handler other) w
     = Some (exec fmt handler w') \<and>
   run_use fmt Cplusplus (prior @ [(False, True)])
     (enclosed (requires s c) std_logic_error handler other) w
     = Some (exec fmt handler w')"
  by (simp add: run_use_last requires_configured ensures_configured validate_configured
        enclosed_def ContractViolated_def std_logic_error_def)

theorem exception_mode_failure_witness:
  "meaning (Arg ''amount > 0'' ''amount > 0'' (Value False)) \<lparr>stderr = '''', state = ()\<rparr>
     = Value False \<lparr>stderr = '''', state = ()\<rparr> \<and>
   run_use musl_format Cplusplus [(True, False), (False, True)]
     (requires \<lparr>file_name = ''bank.cpp'', line_number = 12, function_name = ''withdraw''\<rparr>
        (Arg ''amount > 0'' ''amount > 0'' (Value False)))
     \<lparr>stderr = '''', state = ()\<rparr>
   = Some (Thrown (Exn ContractViolated ''amount > 0'') \<lparr>stderr = '''', state = ()\<rparr>)"
  using exception_mode_failure [where prior = "[(True, False)]" and fmt = musl_format
      and c = "Arg ''amount > 0'' ''amount > 0'' (Value False)"
      and w = "\<lparr>stderr = '''', state = ()\<rparr>" and w' = "\<lparr>stderr = '''', state = ()\<rparr>"
      and s = "\<lparr>file_name = ''bank.cpp'', line_number = 12, function_name = ''withdraw''\<rparr>"
      and handler = Void0 and other = Void0]
  by simp

subsection \<open>assert_exception\<close>

text \<open>
  C4 as stated fails in the wording of the messages: the header writes \<open>No exceptions has
  been thrown\<close>, and puts the expected type between the quotation marks U+201C and U+201D.
  For \<open>assert_exception(code, std::out_of_range)\<close> at test.cpp:7 with a \<open>code\<close> that
  throws nothing:
\<close>

theorem assert_exception_message_counterexample:
  "run_use musl_format Cplusplus [(False, False)]
     (assert_exception
        \<lparr>file_name = ''test.cpp'', line_number = 7, function_name = ''main''\<rparr>
        (Value ())
        (Arg ''std::out_of_range'' ''std::out_of_range''
           (Derived ''std::out_of_range'' std_logic_error)))
     \<lparr>stderr = '''', state = ()\<rparr>
   \<noteq> Some (Aborted
       \<lparr>stderr = ''*** assertion failed at test.cpp:7'' @ [newline] @
                 ''No exception has been thrown (expected: std::out_of_range).'' @ [newline],
        state = ()\<rparr>)"
  by (simp add: run_use_last [where prior = "[]", simplified] assert_exception_configured
        write_stderr_def failure_report_def no_exception_message_def decimal.simps
        left_quote_def right_quote_def newline_def)

text \<open>
  C4, amended. Without NDEBUG, in C++, \<open>assert_exception(code, K)\<close> runs \<open>code\<close> and
  then: if \<open>code\<close> throws nothing, it reports \<open>No exceptions has been thrown (expected:
  "K").\<close> and aborts; if \<open>code\<close> throws something no handler for K catches, it reports
  \<open>An unexpected exception has been thrown (expected: "K").\<close> and aborts; if \<open>code\<close>
  throws something a handler for K catches, it completes, with the effects \<open>code\<close> had up
  to the throw and no other. In both messages K stands between U+201C and U+201D, and the
  report has the form \<open>*** assertion failed at file:line\<close>, newline, message, newline.
\<close>

theorem assert_exception_outcomes:
  "run_use fmt Cplusplus (prior @ [(False, exd)]) (assert_exception s code ex) w =
     Some (case code w of
             Value u w' \<Rightarrow>
               Aborted (write_stderr (failure_report s
                 (''No exceptions has been thrown (expected: '' @ left_quote @ spelling ex @
                  right_quote @ '').'')) w')
           | Thrown x w' \<Rightarrow>
               if catches (meaning ex) (thrown_type x) then Value () w'
               else Aborted (write_stderr (failure_report s
                 (''An unexpected exception has been thrown (expected: '' @ left_quote @
                  spelling ex @ right_quote @ '').'')) w')
           | Aborted w' \<Rightarrow> Aborted w')"
  by (simp add: run_use_last assert_exception_configured no_exception_message_def
        unexpected_exception_message_def split: outcome.split)

text \<open>The three outcomes, expecting \<open>std::logic_error\<close>: \<open>code\<close> throws
  \<open>std::out_of_range\<close>, throws an \<open>int\<close>, throws nothing.\<close>

theorem assert_exception_outcomes_witness:
  "run_use musl_format Cplusplus [(False, False)]
     (assert_exception
        \<lparr>file_name = ''test.cpp'', line_number = 7, function_name = ''main''\<rparr>
        (Thrown (Exn (Derived ''std::out_of_range'' std_logic_error) ''vector::at''))
        (Arg ''std::logic_error'' ''std::logic_error'' std_logic_error))
     \<lparr>stderr = '''', state = ()\<rparr>
   = Some (Value () \<lparr>stderr = '''', state = ()\<rparr>) \<and>
   run_use musl_format Cplusplus [(False, False)]
     (assert_exception
        \<lparr>file_name = ''test.cpp'', line_number = 7, function_name = ''main''\<rparr>
        (Thrown (Exn (Type ''int'') ''''))
        (Arg ''std::logic_error'' ''std::logic_error'' std_logic_error))
     \<lparr>stderr = '''', state = ()\<rparr>
   = Some (Aborted
       \<lparr>stderr = ''*** assertion failed at test.cpp:7'' @ [newline] @
          ''An unexpected exception has been thrown (expected: '' @ left_quote @
          ''std::logic_error'' @ right_quote @ '').'' @ [newline],
        state = ()\<rparr>) \<and>
   run_use musl_format Cplusplus [(False, False)]
     (assert_exception
        \<lparr>file_name = ''test.cpp'', line_number = 7, function_name = ''main''\<rparr>
        (Value ())
        (Arg ''std::logic_error'' ''std::logic_error'' std_logic_error))
     \<lparr>stderr = '''', state = ()\<rparr>
   = Some (Aborted
       \<lparr>stderr = ''*** assertion failed at test.cpp:7'' @ [newline] @
          ''No exceptions has been thrown (expected: '' @ left_quote @
          ''std::logic_error'' @ right_quote @ '').'' @ [newline],
        state = ()\<rparr>)"
  using
    assert_exception_outcomes [where prior = "[]" and exd = False and fmt = musl_format
      and s = "\<lparr>file_name = ''test.cpp'', line_number = 7, function_name = ''main''\<rparr>"
      and code = "Thrown (Exn (Derived ''std::out_of_range'' std_logic_error) ''vector::at'')"
      and ex = "Arg ''std::logic_error'' ''std::logic_error'' std_logic_error"
      and w = "\<lparr>stderr = '''', state = ()\<rparr>"]
    assert_exception_outcomes [where prior = "[]" and exd = False and fmt = musl_format
      and s = "\<lparr>file_name = ''test.cpp'', line_number = 7, function_name = ''main''\<rparr>"
      and code = "Thrown (Exn (Type ''int'') '''')"
      and ex = "Arg ''std::logic_error'' ''std::logic_error'' std_logic_error"
      and w = "\<lparr>stderr = '''', state = ()\<rparr>"]
    assert_exception_outcomes [where prior = "[]" and exd = False and fmt = musl_format
      and s = "\<lparr>file_name = ''test.cpp'', line_number = 7, function_name = ''main''\<rparr>"
      and code = "Value ()"
      and ex = "Arg ''std::logic_error'' ''std::logic_error'' std_logic_error"
      and w = "\<lparr>stderr = '''', state = ()\<rparr>"]
  by (simp add: write_stderr_def failure_report_def decimal.simps std_logic_error_def
        std_exception_def)

text \<open>
  C10. Without NDEBUG, in C++, with EXDEBUG defined: the two failures of
  \<open>assert_exception(code, K)\<close> are calls of \<open>__contracts_assert_failed\<close>, which
  reports and aborts; no use of \<open>assert_exception\<close> lets an exception out, so a failure
  never reaches a handler as a \<open>ContractViolated\<close>.
\<close>

theorem assert_exception_failure_aborts:
  "use Cplusplus (prior @ [(False, True)]) (assert_exception s code ex) =
     Some (If_true
             (Try_catch
                (Sequence (Caller code) (Contracts_assert_failed s (no_exception_message ex)))
                (meaning ex)
                Empty_block
                (Contracts_assert_failed s (unexpected_exception_message ex)))
             (Paren Void0)) \<and>
   run_use fmt Cplusplus (prior @ [(False, True)]) (assert_exception s code ex) w =
     Some (case code w of
             Value u w' \<Rightarrow>
               Aborted (write_stderr (failure_report s (no_exception_message ex)) w')
           | Thrown x w' \<Rightarrow>
               if catches (meaning ex) (thrown_type x) then Value () w'
               else Aborted (write_stderr (failure_report s (unexpected_exception_message ex)) w')
           | Aborted w' \<Rightarrow> Aborted w') \<and>
   run_use fmt Cplusplus (prior @ [(False, True)]) (assert_exception s code ex) w
     \<noteq> Some (Thrown y w'')"
  by (simp add: use_last run_use_last assert_exception_configured split: outcome.split)

text \<open>Under EXDEBUG, a \<open>code\<close> that throws \<open>ContractViolated\<close> where
  \<open>std::out_of_range\<close> is expected: the process aborts.\<close>

theorem assert_exception_failure_aborts_witness:
  "run_use musl_format Cplusplus [(False, True)]
     (assert_exception
        \<lparr>file_name = ''test.cpp'', line_number = 7, function_name = ''main''\<rparr>
        (Thrown (Exn ContractViolated ''amount > 0''))
        (Arg ''std::out_of_range'' ''std::out_of_range''
           (Derived ''std::out_of_range'' std_logic_error)))
     \<lparr>stderr = '''', state = ()\<rparr>
   = Some (Aborted
       \<lparr>stderr = ''*** assertion failed at test.cpp:7'' @ [newline] @
          ''An unexpected exception has been thrown (expected: '' @ left_quote @
          ''std::out_of_range'' @ right_quote @ '').'' @ [newline],
        state = ()\<rparr>)"
  using assert_exception_failure_aborts [where prior = "[]" and fmt = musl_format
      and s = "\<lparr>file_name = ''test.cpp'', line_number = 7, function_name = ''main''\<rparr>"
      and code = "Thrown (Exn ContractViolated ''amount > 0'')"
      and ex = "Arg ''std::out_of_range'' ''std::out_of_range''
                  (Derived ''std::out_of_range'' std_logic_error)"
      and w = "\<lparr>stderr = '''', state = ()\<rparr>"]
  by (simp add: write_stderr_def failure_report_def unexpected_exception_message_def
        decimal.simps ContractViolated_def std_logic_error_def std_exception_def)

text \<open>
  C6. When NDEBUG is defined, \<open>assert_exception(code, ex)\<close> stands for \<open>(void) 0\<close>:
  \<open>code\<close> does not occur in it and is not executed, for every \<open>code\<close> and every
  exception type.
\<close>

theorem ndebug_assert_exception_vanishes:
  "use Cplusplus (prior @ [(True, exd)]) (assert_exception s code ex) = Some Void0 \<and>
   run_use fmt Cplusplus (prior @ [(True, exd)]) (assert_exception s code ex) w
     = Some (Value () w)"
  by (simp add: use_last run_use_last assert_exception_configured)

theorem ndebug_assert_exception_vanishes_witness:
  "run_use musl_format Cplusplus [(True, False)]
     (assert_exception
        \<lparr>file_name = ''test.cpp'', line_number = 7, function_name = ''main''\<rparr>
        Aborted
        (Arg ''std::out_of_range'' ''std::out_of_range''
           (Derived ''std::out_of_range'' std_logic_error)))
     \<lparr>stderr = '''', state = ()\<rparr>
   = Some (Value () \<lparr>stderr = '''', state = ()\<rparr>)"
  using ndebug_assert_exception_vanishes [where prior = "[]" and exd = False
      and fmt = musl_format
      and s = "\<lparr>file_name = ''test.cpp'', line_number = 7, function_name = ''main''\<rparr>"
      and code = Aborted
      and ex = "Arg ''std::out_of_range'' ''std::out_of_range''
                  (Derived ''std::out_of_range'' std_logic_error)"
      and w = "\<lparr>stderr = '''', state = ()\<rparr>"]
  by simp

subsection \<open>requires and ensures\<close>

text \<open>
  C5 as stated has the flag the wrong way round. With NDEBUG defined, a false condition
  triggers nothing; with NDEBUG not defined, the same condition is evaluated and the
  check fails:
\<close>

theorem inverted_flag_counterexample:
  "run_use musl_format C [(True, False)]
     (requires \<lparr>file_name = ''bank.c'', line_number = 12, function_name = ''withdraw''\<rparr>
        (Arg ''amount > 0'' ''amount > 0'' (Value False)))
     \<lparr>stderr = '''', state = ()\<rparr>
   = Some (Value () \<lparr>stderr = '''', state = ()\<rparr>) \<and>
   run_use musl_format C [(False, False)]
     (requires \<lparr>file_name = ''bank.c'', line_number = 12, function_name = ''withdraw''\<rparr>
        (Arg ''amount > 0'' ''amount > 0'' (Value False)))
     \<lparr>stderr = '''', state = ()\<rparr>
   = Some (Aborted
       \<lparr>stderr = ''Assertion failed: amount > 0 (bank.c: withdraw: 12)'' @ [newline],
        state = ()\<rparr>)"
  by (simp add: run_use_last [where prior = "[]", simplified] requires_configured
        musl_format_def write_stderr_def decimal.simps)

text \<open>
  C5, amended. When NDEBUG is not defined, \<open>requires(condition)\<close> and
  \<open>ensures(condition)\<close> evaluate the condition, once, and if it is false trigger the
  failure handling: a \<open>ContractViolated\<close> under EXDEBUG in C++, the abort of \<open>assert\<close>
  otherwise. When NDEBUG is defined, the condition is not evaluated at all.
\<close>

theorem contracts_checked_unless_ndebug:
  "run_use fmt l (prior @ [(True, exd)]) (requires s c) w = Some (Value () w) \<and>
   run_use fmt l (prior @ [(True, exd)]) (ensures s c) w = Some (Value () w) \<and>
   run_use fmt l (prior @ [(False, exd)]) (requires s c) w =
     Some (case meaning c w of
             Value v w' \<Rightarrow>
               if v then Value () w'
               else if exd \<and> l = Cplusplus
                 then Thrown (Exn ContractViolated (replaced c)) w'
                 else Aborted (write_stderr (fmt s (replaced c)) w')
           | Thrown x w' \<Rightarrow> Thrown x w'
           | Aborted w' \<Rightarrow> Aborted w') \<and>
   run_use fmt l (prior @ [(False, exd)]) (ensures s c) w =
     run_use fmt l (prior @ [(False, exd)]) (requires s c) w"
  by (simp add: run_use_last requires_configured ensures_configured split: outcome.split)

text \<open>A condition that writes to the standard error stream when it is evaluated, and is
  false: checked without NDEBUG, and with it.\<close>

theorem contracts_checked_unless_ndebug_witness:
  "run_use musl_format Cplusplus [(False, True)]
     (requires \<lparr>file_name = ''bank.cpp'', line_number = 12, function_name = ''withdraw''\<rparr>
        (Arg ''log()'' ''log()'' (Value False \<circ> write_stderr ''evaluated'')))
     \<lparr>stderr = '''', state = ()\<rparr>
   = Some (Thrown (Exn ContractViolated ''log()'') \<lparr>stderr = ''evaluated'', state = ()\<rparr>) \<and>
   run_use musl_format Cplusplus [(True, True)]
     (requires \<lparr>file_name = ''bank.cpp'', line_number = 12, function_name = ''withdraw''\<rparr>
        (Arg ''log()'' ''log()'' (Value False \<circ> write_stderr ''evaluated'')))
     \<lparr>stderr = '''', state = ()\<rparr>
   = Some (Value () \<lparr>stderr = '''', state = ()\<rparr>)"
  using
    contracts_checked_unless_ndebug [where prior = "[]" and exd = True and l = Cplusplus
      and fmt = musl_format
      and s = "\<lparr>file_name = ''bank.cpp'', line_number = 12, function_name = ''withdraw''\<rparr>"
      and c = "Arg ''log()'' ''log()'' (Value False \<circ> write_stderr ''evaluated'')"
      and w = "\<lparr>stderr = '''', state = ()\<rparr>"]
  by (simp add: write_stderr_def)

text \<open>
  C8. A condition that evaluates to true never triggers the failure handling of
  \<open>requires\<close> or \<open>ensures\<close>: under NDEBUG nothing happens, without it the check
  completes after the evaluation, with or without EXDEBUG, in C and in C++.
\<close>

theorem true_condition_never_fails:
  "meaning c w = Value True w' \<Longrightarrow>
   run_use fmt l (prior @ [(True, exd)]) (requires s c) w = Some (Value () w) \<and>
   run_use fmt l (prior @ [(True, exd)]) (ensures s c) w = Some (Value () w) \<and>
   run_use fmt l (prior @ [(False, exd)]) (requires s c) w = Some (Value () w') \<and>
   run_use fmt l (prior @ [(False, exd)]) (ensures s c) w = Some (Value () w')"
  by (simp add: run_use_last requires_configured ensures_configured)

theorem true_condition_never_fails_witness:
  "meaning (Arg ''1 == 1'' ''1 == 1'' (Value True)) \<lparr>stderr = '''', state = ()\<rparr>
     = Value True \<lparr>stderr = '''', state = ()\<rparr> \<and>
   run_use musl_format Cplusplus [(False, True)]
     (requires \<lparr>file_name = ''bank.cpp'', line_number = 12, function_name = ''withdraw''\<rparr>
        (Arg ''1 == 1'' ''1 == 1'' (Value True)))
     \<lparr>stderr = '''', state = ()\<rparr>
   = Some (Value () \<lparr>stderr = '''', state = ()\<rparr>)"
  using true_condition_never_fails [where prior = "[]" and exd = True and l = Cplusplus
      and fmt = musl_format
      and s = "\<lparr>file_name = ''bank.cpp'', line_number = 12, function_name = ''withdraw''\<rparr>"
      and c = "Arg ''1 == 1'' ''1 == 1'' (Value True)"
      and w = "\<lparr>stderr = '''', state = ()\<rparr>" and w' = "\<lparr>stderr = '''', state = ()\<rparr>"]
  by simp

subsection \<open>if_else_debug and inclusion again\<close>

text \<open>
  C7. For all fragments A and B, \<open>if_else_debug(A, B)\<close> is replaced by exactly one of
  them, chosen by NDEBUG alone: by B when NDEBUG is defined, by A when it is not.
\<close>

theorem if_else_debug_selects:
  "use l (prior @ [(True, exd)]) (if_else_debug code_if code_else) = Some code_else \<and>
   use l (prior @ [(False, exd)]) (if_else_debug code_if code_else) = Some code_if"
  by (simp add: use_last if_else_debug_configured)

theorem if_else_debug_selects_witness:
  "use C [(False, False), (True, False)] (if_else_debug ''on'' ''off'') = Some ''off'' \<and>
   use C [(True, False), (False, False)] (if_else_debug ''on'' ''off'') = Some ''on''"
  using
    if_else_debug_selects [where prior = "[(False, False)]" and exd = False and l = C
      and code_if = "''on''" and code_else = "''off''"]
    if_else_debug_selects [where prior = "[(True, False)]" and exd = False and l = C
      and code_if = "''on''" and code_else = "''off''"]
  by simp

text \<open>
  C9. A unit may include the header again and again under different NDEBUG and EXDEBUG:
  every inclusion succeeds, and after it the unit is the one a single inclusion under the
  same flags gives. \<open>if_else_debug\<close> and \<open>CONTRACTS_ASSERT\<close> have the replacement
  lists of the flags of the last inclusion, and every macro use is replaced as if no
  earlier inclusion had happened.
\<close>

theorem reinclusion_independent:
  "unit_after l (prior @ [f]) = unit_after l [f] \<and>
   unit_after l (prior @ [f]) \<noteq> None \<and>
   use l (prior @ [f]) macro = use l [f] macro \<and>
   use l (prior @ [(True, exd)]) (defined_as ''if_else_debug'') = Some Code_else_list \<and>
   use l (prior @ [(False, exd)]) (defined_as ''if_else_debug'') = Some Code_if_list \<and>
   use l (prior @ [(True, exd)]) (defined_as ''CONTRACTS_ASSERT'') = Some Void0_list \<and>
   use Cplusplus (prior @ [(False, True)]) (defined_as ''CONTRACTS_ASSERT'') = Some Throw_list \<and>
   use C (prior @ [(False, True)]) (defined_as ''CONTRACTS_ASSERT'') = Some Assert_list \<and>
   use l (prior @ [(False, False)]) (defined_as ''CONTRACTS_ASSERT'') = Some Assert_list"
  using unit_after_last [of l "[]" f]
  by (simp add: use_last unit_after_last defined_as_def configured_switched use_def)

theorem reinclusion_independent_witness:
  "unit_after Cplusplus [(False, True), (True, False), (False, False)]
     = unit_after Cplusplus [(False, False)] \<and>
   use Cplusplus [(False, True), (True, False), (False, False)] (defined_as ''CONTRACTS_ASSERT'')
     = Some Assert_list"
  using reinclusion_independent [where prior = "[(False, True), (True, False)]"
      and f = "(False, False)" and l = Cplusplus and exd = False
      and macro = "defined_as ''CONTRACTS_ASSERT''"]
  unfolding append.simps by blast

end
